theory Spec2Isabelle
  imports Main
begin

section \<open>Python values shared by the two modules\<close>

text \<open>
  The exceptions that the modelled code (and the builtins it calls) can raise. A function
  that can raise returns \<open>error + 'a\<close>, with \<open>Inl\<close> the exception.
  \<open>Unmodelled\<close> marks the parts of the format mini-language (conversions, format
  specifications, attribute and index access) that no template of this program uses and
  that the model of \<open>str.format\<close> below does not interpret.
\<close>

datatype error =
    ValueError string
  | KeyError string
  | IndexError
  | AttributeError string
  | UnicodeDecodeError
  | Unmodelled

text \<open>
  A \<open>dict\<close> with string keys and string values: the configuration dicts of
  \<open>profile.py\<close>, the process environment and one stored profile. All fields of a
  configuration are strings (the JSON profile file stores the same fields).
\<close>

type_synonym dict = "string \<rightharpoonup> string"

text \<open>Truthiness of \<open>d.get(k)\<close>: a missing key gives \<open>None\<close>, which is falsy like \<open>""\<close>.\<close>

fun truthy :: "string option \<Rightarrow> bool" where
  "truthy None = False"
| "truthy (Some v) = (v \<noteq> [])"

section \<open>providers.py\<close>

record ProviderPreset =
  endpoint_template :: string
  default_region :: string
  force_path_style :: bool

text \<open>
  The registry, in the order of the source (a dict literal keeps insertion order, and
  \<open>PROVIDER_NAMES\<close> is its key list). The dataclass defaults \<open>default_region = "us-east-1"\<close>
  and \<open>force_path_style = False\<close> are written out where the source omits the field.
\<close>

definition PROVIDERS :: "(string \<times> ProviderPreset) list" where
  "PROVIDERS =
    [ (''AWS S3'',
        \<lparr>endpoint_template = '''', default_region = ''us-east-1'', force_path_style = False\<rparr>),
      (''Backblaze B2'',
        \<lparr>endpoint_template = ''https://s3.{region}.backblazeb2.com'',
         default_region = ''us-west-004'', force_path_style = False\<rparr>),
      (''Cloudflare R2'',
        \<lparr>endpoint_template = ''https://{account_id}.r2.cloudflarestorage.com'',
         default_region = ''auto'', force_path_style = False\<rparr>),
      (''MinIO'',
        \<lparr>endpoint_template = ''http://localhost:9000'',
         default_region = ''us-east-1'', force_path_style = True\<rparr>),
      (''Wasabi'',
        \<lparr>endpoint_template = ''https://s3.{region}.wasabisys.com'',
         default_region = ''us-east-1'', force_path_style = False\<rparr>),
      (''DigitalOcean Spaces'',
        \<lparr>endpoint_template = ''https://{region}.digitaloceanspaces.com'',
         default_region = ''nyc3'', force_path_style = False\<rparr>),
      (''GCS (S3 interop)'',
        \<lparr>endpoint_template = ''https://storage.googleapis.com'',
         default_region = ''auto'', force_path_style = False\<rparr>),
      (''Custom'',
        \<lparr>endpoint_template = '''', default_region = '''', force_path_style = False\<rparr>) ]"

definition PROVIDER_NAMES :: "string list" where
  "PROVIDER_NAMES = map fst PROVIDERS"

text \<open>\<open>PROVIDERS[key]\<close> raises \<open>KeyError\<close> on a missing key; \<open>PROVIDERS.get(key, default)\<close> does not.\<close>

definition providers_getitem :: "string \<Rightarrow> error + ProviderPreset" where
  "providers_getitem key =
     (case map_of PROVIDERS key of None \<Rightarrow> Inl (KeyError key) | Some p \<Rightarrow> Inr p)"

definition providers_get :: "string \<Rightarrow> ProviderPreset \<Rightarrow> ProviderPreset" where
  "providers_get key dflt = (case map_of PROVIDERS key of None \<Rightarrow> dflt | Some p \<Rightarrow> p)"

text \<open>
  \<open>preset = PROVIDERS.get(provider, PROVIDERS["Custom"])\<close>: Python evaluates the default
  argument \<open>PROVIDERS["Custom"]\<close> first, whatever \<open>provider\<close> is.
\<close>

definition lookup_preset :: "string \<Rightarrow> error + ProviderPreset" where
  "lookup_preset provider =
     (case providers_getitem ''Custom'' of
        Inl e \<Rightarrow> Inl e
      | Inr custom \<Rightarrow> Inr (providers_get provider custom))"

subsection \<open>The builtin \<open>str.format\<close> with keyword arguments only\<close>

text \<open>
  \<open>template.format(region=..., account_id=...)\<close> scans the template from left to right.
  Outside a replacement field, \<open>{{\<close> and \<open>}}\<close> stand for one brace, a single \<open>}\<close> is a
  \<open>ValueError\<close>, and a single \<open>{\<close> opens a field that runs to the next \<open>}\<close>. A field
  whose name is empty or a number refers to a positional argument, of which there are
  none (\<open>IndexError\<close>; a number beyond the largest index, \<open>2^63 - 1\<close> on a 64-bit
  build, is a \<open>ValueError\<close> before that); any other name is looked up among the keyword
  arguments (\<open>KeyError\<close> when missing) and replaced by the argument, a string, as it is.
\<close>

definition is_digit :: "char \<Rightarrow> bool" where
  "is_digit c = (c \<in> set ''0123456789'')"

definition digits_value :: "string \<Rightarrow> nat" where
  "digits_value ds = foldl (\<lambda>acc c. 10 * acc + (of_char c - 48)) 0 ds"

definition field_value :: "(string \<times> string) list \<Rightarrow> string \<Rightarrow> error + string" where
  "field_value kwargs name =
     (if name = [] then Inl IndexError
      else if list_all is_digit name then
        (if digits_value name > 2 ^ 63 - 1
         then Inl (ValueError ''Too many decimal digits in format string'')
         else Inl IndexError)
      else case map_of kwargs name of None \<Rightarrow> Inl (KeyError name) | Some v \<Rightarrow> Inr v)"

definition prepend :: "string \<Rightarrow> error + string \<Rightarrow> error + string" where
  "prepend s r = (case r of Inl e \<Rightarrow> Inl e | Inr t \<Rightarrow> Inr (s @ t))"

fun format_literal :: "(string \<times> string) list \<Rightarrow> string \<Rightarrow> error + string"
  and format_field :: "(string \<times> string) list \<Rightarrow> string \<Rightarrow> string \<Rightarrow> error + string" where
  "format_literal kwargs [] = Inr []"
| "format_literal kwargs (c # cs) =
     (if c = CHR ''{'' then
        (case cs of
           [] \<Rightarrow> Inl (ValueError ''Single '{' encountered in format string'')
         | d # ds \<Rightarrow>
             if d = CHR ''{'' then prepend [c] (format_literal kwargs ds)
             else format_field kwargs [] cs)
      else if c = CHR ''}'' then
        (case cs of
           [] \<Rightarrow> Inl (ValueError ''Single '}' encountered in format string'')
         | d # ds \<Rightarrow>
             if d = CHR ''}'' then prepend [c] (format_literal kwargs ds)
             else Inl (ValueError ''Single '}' encountered in format string''))
      else prepend [c] (format_literal kwargs cs))"
| "format_field kwargs name [] = Inl (ValueError ''expected '}' before end of string'')"
| "format_field kwargs name (c # cs) =
     (if c = CHR ''}'' then
        (case field_value kwargs name of
           Inl e \<Rightarrow> Inl e
         | Inr v \<Rightarrow> prepend v (format_literal kwargs cs))
      else if c = CHR ''{'' then Inl (ValueError ''unexpected '{' in field name'')
      else if c \<in> set ''!:.['' then Inl Unmodelled
      else format_field kwargs (name @ [c]) cs)"

definition str_format :: "string \<Rightarrow> (string \<times> string) list \<Rightarrow> error + string" where
  "str_format template kwargs = format_literal kwargs template"

subsection \<open>\<open>create_s3_client\<close>\<close>

text \<open>
  The function builds the keyword arguments of \<open>boto3.client("s3", **kwargs)\<close>. The
  model ends there: \<open>Inr kwargs\<close> says that the call is reached with these arguments,
  and what the imports of \<open>boto3\<close> and \<open>botocore\<close> and the call itself do is the
  external library's. \<open>endpoint_url\<close> is a key of \<open>kwargs\<close> only when the effective
  endpoint is non-empty.
\<close>

record Config =
  signature_version :: string
  addressing_style :: string
  max_attempts :: nat
  retry_mode :: string
  user_agent_extra :: string

record client_kwargs =
  aws_access_key_id :: string
  aws_secret_access_key :: string
  region_name :: string
  config_kwarg :: Config
  endpoint_url_kwarg :: "string option"

text \<open>\<open>effective_region = region or preset.default_region\<close>\<close>

definition effective_region :: "ProviderPreset \<Rightarrow> string \<Rightarrow> string" where
  "effective_region preset region = (if region \<noteq> [] then region else default_region preset)"

text \<open>The \<open>if endpoint_url: ... elif preset.endpoint_template: ... else: ...\<close> block.\<close>

definition effective_endpoint ::
  "ProviderPreset \<Rightarrow> string \<Rightarrow> string \<Rightarrow> string \<Rightarrow> error + string" where
  "effective_endpoint preset endpoint_url region account_id =
     (if endpoint_url \<noteq> [] then Inr endpoint_url
      else if endpoint_template preset \<noteq> [] then
        str_format (endpoint_template preset)
          [(''region'', effective_region preset region), (''account_id'', account_id)]
      else Inr [])"

definition create_s3_client ::
  "string \<Rightarrow> string \<Rightarrow> string \<Rightarrow> string \<Rightarrow> string \<Rightarrow> string \<Rightarrow> error + client_kwargs" where
  "create_s3_client provider access_key secret_key region endpoint_url account_id =
     (case lookup_preset provider of
        Inl e \<Rightarrow> Inl e
      | Inr preset \<Rightarrow>
          (case effective_endpoint preset endpoint_url region account_id of
             Inl e \<Rightarrow> Inl e
           | Inr endpoint \<Rightarrow>
               Inr \<lparr>aws_access_key_id = access_key,
                    aws_secret_access_key = secret_key,
                    region_name = effective_region preset region,
                    config_kwarg =
                      \<lparr>signature_version = ''s3v4'',
                       addressing_style =
                         (if force_path_style preset then ''path'' else ''auto''),
                       max_attempts = 3,
                       retry_mode = ''adaptive'',
                       user_agent_extra = ''b2ai-comfyui''\<rparr>,
                    endpoint_url_kwarg = (if endpoint \<noteq> [] then Some endpoint else None)\<rparr>))"

section \<open>profile.py\<close>

definition ENV_PREFIX :: string where
  "ENV_PREFIX = ''COMFY_S3_''"

text \<open>Environment variable suffix and the configuration key it feeds, in source order.\<close>

definition ENV_KEYS :: "(string \<times> string) list" where
  "ENV_KEYS =
    [ (''PROVIDER'', ''provider''),
      (''ACCESS_KEY'', ''access_key''),
      (''SECRET_KEY'', ''secret_key''),
      (''REGION'', ''region''),
      (''BUCKET'', ''bucket''),
      (''ENDPOINT_URL'', ''endpoint_url''),
      (''ACCOUNT_ID'', ''account_id''),
      (''PATH_PREFIX'', ''path_prefix'') ]"

text \<open>\<open>os.environ.get(name, default)\<close> on a snapshot of the process environment.\<close>

definition environ_get :: "dict \<Rightarrow> string \<Rightarrow> string \<Rightarrow> string" where
  "environ_get environ name dflt = (case environ name of None \<Rightarrow> dflt | Some v \<Rightarrow> v)"

text \<open>\<open>_profile_from_env\<close>: the loop over \<open>ENV_KEYS.items()\<close>, one step per entry.\<close>

definition profile_from_env_step :: "dict \<Rightarrow> dict \<Rightarrow> string \<times> string \<Rightarrow> dict" where
  "profile_from_env_step environ profile entry =
     (let v = environ_get environ (ENV_PREFIX @ fst entry) []
      in if v \<noteq> [] then profile(snd entry \<mapsto> v) else profile)"

definition profile_from_env :: "dict \<Rightarrow> dict" where
  "profile_from_env environ = foldl (profile_from_env_step environ) Map.empty ENV_KEYS"

text \<open>The dict comprehension \<open>{k: v for k, v in d.items() if v}\<close>.\<close>

definition truthy_items :: "dict \<Rightarrow> dict" where
  "truthy_items d = (\<lambda>k. if truthy (d k) then d k else None)"

text \<open>\<open>config.update(d)\<close>: the keys of \<open>d\<close> are set, the others stay.\<close>

definition dict_update :: "dict \<Rightarrow> dict \<Rightarrow> dict" where
  "dict_update config d = config ++ d"

text \<open>
  The effects of \<open>resolve_profile\<close> other than its result: the call of
  \<open>_load_profiles()\<close>, which reads the profile file, and the warning it logs itself.
\<close>

datatype event = LoadProfiles | LogWarning string

definition default_config :: dict where
  "default_config =
     [''provider'' \<mapsto> ''AWS S3'',
      ''access_key'' \<mapsto> [],
      ''secret_key'' \<mapsto> [],
      ''region'' \<mapsto> [],
      ''bucket'' \<mapsto> [],
      ''endpoint_url'' \<mapsto> [],
      ''account_id'' \<mapsto> [],
      ''path_prefix'' \<mapsto> []]"

text \<open>"Start with env vars": the literal of defaults, updated from the environment.\<close>

definition env_layer :: "dict \<Rightarrow> dict" where
  "env_layer environ = dict_update default_config (truthy_items (profile_from_env environ))"

text \<open>
  "Overlay named profile". \<open>profiles\<close> is the dict that \<open>_load_profiles()\<close> returns when
  it is called: profile name to stored fields, each stored profile a dict of strings as
  the data model has it. \<open>profiles.get(profile_name, {})\<close> gives the empty dict for a
  missing name, and \<open>not named\<close> holds exactly for the empty dict.
\<close>

definition not_found_message :: "string \<Rightarrow> string" where
  "not_found_message profile_name =
     ''Cloud storage profile '' @ [CHR 0x27] @ profile_name @ [CHR 0x27] @ '' not found''"

definition profile_layer :: "(string \<rightharpoonup> dict) \<Rightarrow> string \<Rightarrow> dict \<Rightarrow> dict \<times> event list" where
  "profile_layer profiles profile_name config =
     (if profile_name \<noteq> [] \<and> profile_name \<noteq> ''(env vars)'' then
        (let named = (case profiles profile_name of None \<Rightarrow> Map.empty | Some d \<Rightarrow> d)
         in if named = Map.empty
            then (config, [LoadProfiles, LogWarning (not_found_message profile_name)])
            else (dict_update config (truthy_items named), [LoadProfiles]))
      else (config, []))"

text \<open>"Overlay per-node widget overrides": three guarded assignments, in source order.\<close>

definition override_layer :: "string \<Rightarrow> string \<Rightarrow> string \<Rightarrow> dict \<Rightarrow> dict" where
  "override_layer provider_override bucket_override path_prefix_override config =
     (let c1 = (if provider_override \<noteq> [] \<and> provider_override \<noteq> ''(from profile)''
                then config(''provider'' \<mapsto> provider_override) else config);
          c2 = (if bucket_override \<noteq> [] then c1(''bucket'' \<mapsto> bucket_override) else c1);
          c3 = (if path_prefix_override \<noteq> []
                then c2(''path_prefix'' \<mapsto> path_prefix_override) else c2)
      in c3)"

text \<open>
  \<open>resolve_profile\<close>, with the two things it reads passed in: the environment and the
  stored profiles. It returns the configuration and the effects, in order.
\<close>

definition resolve_profile ::
  "dict \<Rightarrow> (string \<rightharpoonup> dict) \<Rightarrow> string \<Rightarrow> string \<Rightarrow> string \<Rightarrow> string \<Rightarrow> dict \<times> event list" where
  "resolve_profile environ profiles profile_name provider_override bucket_override
       path_prefix_override =
     (let config = env_layer environ;
          layered = profile_layer profiles profile_name config
      in (override_layer provider_override bucket_override path_prefix_override (fst layered),
          snd layered))"

text \<open>The value of \<open>config\<close> when the per-node overrides are about to be applied.\<close>

definition after_profile_layer :: "dict \<Rightarrow> (string \<rightharpoonup> dict) \<Rightarrow> string \<Rightarrow> dict" where
  "after_profile_layer environ profiles profile_name =
     fst (profile_layer profiles profile_name (env_layer environ))"

definition resolve_default_profile :: "dict \<Rightarrow> (string \<rightharpoonup> dict) \<Rightarrow> dict \<times> event list" where
  "resolve_default_profile environ profiles =
     resolve_profile environ profiles ''(env vars)'' [] [] []"

subsection \<open>The profile file as it is on disk\<close>

text \<open>
  \<open>resolve_profile\<close> above takes the stored profiles as a dict of dicts of strings, which
  is what a profile file of the documented shape gives. The file is written by hand,
  though, and \<open>json.load\<close> returns whatever JSON value it holds. The definitions of this
  subsection follow the same source lines on an arbitrary parsed value, where the
  attribute accesses \<open>data.get\<close> (line 50), \<open>profiles.get\<close> (line 101) and
  \<open>named.items\<close> (line 105) exist on a dict only. An integer stands for every JSON
  number: what matters below is that a number is no dict and is falsy exactly when zero.
\<close>

datatype json =
    JNull
  | JBool bool
  | JNumber int
  | JString string
  | JArray "json list"
  | JObject "string \<Rightarrow> json option"

text \<open>Python's truth value of a parsed JSON value.\<close>

fun py_truthy :: "json \<Rightarrow> bool" where
  "py_truthy JNull = False"
| "py_truthy (JBool b) = b"
| "py_truthy (JNumber n) = (n \<noteq> 0)"
| "py_truthy (JString s) = (s \<noteq> [])"
| "py_truthy (JArray xs) = (xs \<noteq> [])"
| "py_truthy (JObject members) = (members \<noteq> Map.empty)"

text \<open>\<open>value.get(key, default)\<close>: only a dict has the method.\<close>

fun json_get :: "json \<Rightarrow> string \<Rightarrow> json \<Rightarrow> error + json" where
  "json_get (JObject members) key dflt =
     Inr (case members key of None \<Rightarrow> dflt | Some v \<Rightarrow> v)"
| "json_get other key dflt = Inl (AttributeError ''get'')"

text \<open>
  What \<open>_load_profiles\<close> finds at the path: no file; a file that cannot be opened or read
  (\<open>OSError\<close>); text that is not JSON (\<open>JSONDecodeError\<close>); bytes that are not text
  (\<open>UnicodeDecodeError\<close>, which the \<open>except\<close> clause does not name); or a JSON document.
  The two caught errors carry the text that the warning prints.
\<close>

datatype profiles_file =
    Missing
  | OpenFails string
  | NotJson string
  | NotText
  | Document json

definition load_failed_message :: "string \<Rightarrow> string \<Rightarrow> string" where
  "load_failed_message path detail =
     ''Failed to load cloud storage profiles from '' @ path @ '': '' @ detail"

definition load_profiles :: "string \<Rightarrow> profiles_file \<Rightarrow> (error + json) \<times> event list" where
  "load_profiles path file =
     (case file of
        Missing \<Rightarrow> (Inr (JObject Map.empty), [])
      | OpenFails detail \<Rightarrow>
          (Inr (JObject Map.empty), [LogWarning (load_failed_message path detail)])
      | NotJson detail \<Rightarrow>
          (Inr (JObject Map.empty), [LogWarning (load_failed_message path detail)])
      | NotText \<Rightarrow> (Inl UnicodeDecodeError, [])
      | Document data \<Rightarrow> (json_get data ''profiles'' (JObject Map.empty), []))"

text \<open>A configuration whose values may be any JSON value a stored profile holds.\<close>

type_synonym json_dict = "string \<Rightarrow> json option"

definition json_truthy_items :: "json_dict \<Rightarrow> json_dict" where
  "json_truthy_items d =
     (\<lambda>k. case d k of None \<Rightarrow> None | Some v \<Rightarrow> if py_truthy v then Some v else None)"

definition string_values :: "dict \<Rightarrow> json_dict" where
  "string_values d = (\<lambda>k. map_option JString (d k))"

definition json_override_layer :: "string \<Rightarrow> string \<Rightarrow> string \<Rightarrow> json_dict \<Rightarrow> json_dict" where
  "json_override_layer provider_override bucket_override path_prefix_override config =
     (let c1 = (if provider_override \<noteq> [] \<and> provider_override \<noteq> ''(from profile)''
                then config(''provider'' \<mapsto> JString provider_override) else config);
          c2 = (if bucket_override \<noteq> []
                then c1(''bucket'' \<mapsto> JString bucket_override) else c1);
          c3 = (if path_prefix_override \<noteq> []
                then c2(''path_prefix'' \<mapsto> JString path_prefix_override) else c2)
      in c3)"

text \<open>
  \<open>resolve_profile\<close> line by line, with the environment, the path and the state of the
  profile file passed in. The result is the exception that leaves the function, or the
  configuration; the effects up to that point come with either.
\<close>

definition resolve_profile_from_file ::
  "dict \<Rightarrow> string \<Rightarrow> profiles_file \<Rightarrow> string \<Rightarrow> string \<Rightarrow> string \<Rightarrow> string \<Rightarrow>
     (error + json_dict) \<times> event list" where
  "resolve_profile_from_file environ path file profile_name provider_override bucket_override
       path_prefix_override =
     (let config = string_values (env_layer environ);
          overrides = json_override_layer provider_override bucket_override path_prefix_override
      in if profile_name \<noteq> [] \<and> profile_name \<noteq> ''(env vars)'' then
           (case load_profiles path file of
              (Inl e, logged) \<Rightarrow> (Inl e, LoadProfiles # logged)
            | (Inr profiles, logged) \<Rightarrow>
                (case json_get profiles profile_name (JObject Map.empty) of
                   Inl e \<Rightarrow> (Inl e, LoadProfiles # logged)
                 | Inr named \<Rightarrow>
                     if \<not> py_truthy named then
                       (Inr (overrides config),
                        LoadProfiles # logged @ [LogWarning (not_found_message profile_name)])
                     else
                       (case named of
                          JObject members \<Rightarrow>
                            (Inr (overrides (config ++ json_truthy_items members)),
                             LoadProfiles # logged)
                        | _ \<Rightarrow> (Inl (AttributeError ''items''), LoadProfiles # logged))))
         else (Inr (overrides config), []))"

text \<open>
  The file of the documented shape for given stored profiles: an object whose
  \<open>profiles\<close> member maps each profile name to an object of string fields.
\<close>

definition profiles_document :: "(string \<rightharpoonup> dict) \<Rightarrow> profiles_file" where
  "profiles_document profiles =
     Document (JObject
       [''profiles'' \<mapsto>
          JObject (\<lambda>name. map_option (\<lambda>d. JObject (string_values d)) (profiles name))])"

text \<open>
  \<open>validate_config\<close>. The three messages are the source's literals; the first one
  interpolates \<open>_get_profiles_path()\<close>, a path the host application decides, taken here
  as the parameter \<open>profiles_path\<close>.
\<close>

definition access_key_message :: "string \<Rightarrow> string" where
  "access_key_message profiles_path =
     ''Cloud storage access key not configured. '' @
     ''Set COMFY_S3_ACCESS_KEY env var, create a profile in '' @
     profiles_path @ '', or connect a CloudStorageProfile node.''"

definition secret_key_message :: string where
  "secret_key_message =
     ''Cloud storage secret key not configured. '' @
     ''Set COMFY_S3_SECRET_KEY env var or configure a profile.''"

definition bucket_message :: string where
  "bucket_message =
     ''Cloud storage bucket not configured. '' @
     ''Set COMFY_S3_BUCKET env var or configure a profile.''"

definition validate_config :: "string \<Rightarrow> dict \<Rightarrow> error + unit" where
  "validate_config profiles_path config =
     (if \<not> truthy (config ''access_key'') then
        Inl (ValueError (access_key_message profiles_path))
      else if \<not> truthy (config ''secret_key'') then Inl (ValueError secret_key_message)
      else if \<not> truthy (config ''bucket'') then Inl (ValueError bucket_message)
      else Inr ())"

section \<open>The specification's words, as definitions of their own\<close>






section \<open>Properties of the provider registry\<close>


lemma custom_getitem:
  "providers_getitem ''Custom'' =
     Inr \<lparr>endpoint_template = [], default_region = [], force_path_style = False\<rparr>"
  by (simp add: providers_getitem_def PROVIDERS_def)

text \<open>
  Claim C7. Exactly one preset of the registry has \<open>force_path_style = True\<close>: the entry
  \<open>MinIO\<close>, whose endpoint is the fixed \<open>http://localhost:9000\<close>. The seven other
  entries, listed by name, have \<open>force_path_style = False\<close>. The names of the registry are
  distinct, so the two lists together are the whole registry.
\<close>

theorem exactly_one_path_style_preset:
  "map fst (filter (\<lambda>entry. force_path_style (snd entry)) PROVIDERS) = [''MinIO'']
   \<and> map fst (filter (\<lambda>entry. \<not> force_path_style (snd entry)) PROVIDERS) =
       [''AWS S3'', ''Backblaze B2'', ''Cloudflare R2'', ''Wasabi'', ''DigitalOcean Spaces'',
        ''GCS (S3 interop)'', ''Custom'']
   \<and> map_option endpoint_template (map_of PROVIDERS ''MinIO'') = Some ''http://localhost:9000''
   \<and> distinct (map fst PROVIDERS)"
  by (simp add: PROVIDERS_def)

text \<open>
  Claim C8. The lookup of line 72 never raises, for any provider name: it returns the
  registry's preset for a name that is a key of the registry, and otherwise the preset
  stored under \<open>Custom\<close>, which has an empty endpoint template, an empty default region
  and \<open>force_path_style = False\<close>.
\<close>

theorem lookup_preset_never_fails:
  "lookup_preset provider =
     Inr (case map_of PROVIDERS provider of
            Some preset \<Rightarrow> preset
          | None \<Rightarrow> \<lparr>endpoint_template = [], default_region = [], force_path_style = False\<rparr>)
   \<and> map_of PROVIDERS ''Custom'' =
       Some \<lparr>endpoint_template = [], default_region = [], force_path_style = False\<rparr>"
  by (simp add: lookup_preset_def custom_getitem providers_get_def) (simp add: PROVIDERS_def)

section \<open>Properties of endpoint derivation\<close>










text \<open>
  The calls of the repository's tests and the examples of the specification: a region
  template, an account template, an explicit endpoint over a preset, and the native
  provider, which passes no endpoint at all.
\<close>

lemma create_s3_client_examples:
  "map_sum id endpoint_url_kwarg
     (create_s3_client ''Backblaze B2'' ''AKID'' ''SECRET'' ''eu-central-003'' [] []) =
     Inr (Some ''https://s3.eu-central-003.backblazeb2.com'')"
  "map_sum id endpoint_url_kwarg
     (create_s3_client ''Cloudflare R2'' ''AKID'' ''SECRET'' [] [] ''abc123'') =
     Inr (Some ''https://abc123.r2.cloudflarestorage.com'')"
  "map_sum id endpoint_url_kwarg
     (create_s3_client ''Backblaze B2'' ''AKID'' ''SECRET'' [] ''https://custom.example.com'' []) =
     Inr (Some ''https://custom.example.com'')"
  "map_sum id endpoint_url_kwarg
     (create_s3_client ''AWS S3'' ''AKID'' ''SECRET'' [] [] []) = Inr None"
  "map_sum id region_name
     (create_s3_client ''AWS S3'' ''AKID'' ''SECRET'' [] [] []) = Inr ''us-east-1''"
  by (simp_all add: create_s3_client_def lookup_preset_def providers_getitem_def
        providers_get_def PROVIDERS_def effective_endpoint_def effective_region_def
        str_format_def field_value_def is_digit_def prepend_def)

text \<open>
  Outside the plain templates formatting is not substitution: an unknown field name and a
  positional field raise, and doubled braces are an escape.
\<close>

lemma str_format_errors:
  "str_format ''https://{bucket}.example.com'' [(''region'', r), (''account_id'', a)] =
     Inl (KeyError ''bucket'')"
  "str_format ''https://{}.example.com'' [(''region'', r), (''account_id'', a)] = Inl IndexError"
  "str_format ''{{region}}'' [(''region'', r), (''account_id'', a)] = Inr ''{region}''"
  by (simp_all add: str_format_def field_value_def is_digit_def prepend_def)



section \<open>Properties of validation\<close>

lemma messages_distinct:
  "access_key_message p \<noteq> secret_key_message"
  "access_key_message p \<noteq> bucket_message"
  "secret_key_message \<noteq> bucket_message"
  by (simp_all add: access_key_message_def secret_key_message_def bucket_message_def)

text \<open>
  Claim C3. For every configuration dict, \<open>validate_config\<close> raises exactly when
  \<open>access_key\<close>, \<open>secret_key\<close> or \<open>bucket\<close> is empty (or missing, which \<open>config.get\<close>
  treats alike). The error is the one of the first empty field in the order
  \<open>access_key\<close>, \<open>secret_key\<close>, \<open>bucket\<close>, the three errors are different values, and
  the call returns normally when the three fields are non-empty. No other key of the
  dict is read: the statement holds for every dict, whatever it has under \<open>provider\<close>,
  \<open>region\<close>, \<open>path_prefix\<close>, \<open>endpoint_url\<close> or \<open>account_id\<close>.
\<close>

theorem validate_config_first_missing:
  "((\<exists>e. validate_config profiles_path config = Inl e) \<longleftrightarrow>
      (\<not> truthy (config ''access_key'') \<or> \<not> truthy (config ''secret_key'')
        \<or> \<not> truthy (config ''bucket'')))
   \<and> (\<not> truthy (config ''access_key'') \<longrightarrow>
         validate_config profiles_path config =
           Inl (ValueError (access_key_message profiles_path)))
   \<and> (truthy (config ''access_key'') \<and> \<not> truthy (config ''secret_key'') \<longrightarrow>
         validate_config profiles_path config = Inl (ValueError secret_key_message))
   \<and> (truthy (config ''access_key'') \<and> truthy (config ''secret_key'')
         \<and> \<not> truthy (config ''bucket'') \<longrightarrow>
         validate_config profiles_path config = Inl (ValueError bucket_message))
   \<and> (truthy (config ''access_key'') \<and> truthy (config ''secret_key'')
         \<and> truthy (config ''bucket'') \<longrightarrow>
         validate_config profiles_path config = Inr ())
   \<and> access_key_message profiles_path \<noteq> secret_key_message
   \<and> access_key_message profiles_path \<noteq> bucket_message
   \<and> secret_key_message \<noteq> bucket_message"
  by (simp add: validate_config_def messages_distinct)

text \<open>
  The theorem at two concrete dicts. In the first, \<open>secret_key\<close> and \<open>bucket\<close> are both
  empty and the error is the one of \<open>secret_key\<close>; the second has the three fields and
  odd values elsewhere, and passes.
\<close>

theorem validate_config_first_missing_witness:
  "validate_config ''/home/u/.comfyui-cloud-storage/profiles.json''
     [''access_key'' \<mapsto> ''x'', ''secret_key'' \<mapsto> [], ''bucket'' \<mapsto> []]
     = Inl (ValueError secret_key_message)
   \<and> validate_config ''/home/u/.comfyui-cloud-storage/profiles.json''
     [''access_key'' \<mapsto> ''x'', ''secret_key'' \<mapsto> ''y'', ''bucket'' \<mapsto> ''z'',
      ''provider'' \<mapsto> ''no such provider'', ''region'' \<mapsto> []]
     = Inr ()"
  using
    validate_config_first_missing
      [of "''/home/u/.comfyui-cloud-storage/profiles.json''"
          "[''access_key'' \<mapsto> ''x'', ''secret_key'' \<mapsto> [], ''bucket'' \<mapsto> []]"]
    validate_config_first_missing
      [of "''/home/u/.comfyui-cloud-storage/profiles.json''"
          "[''access_key'' \<mapsto> ''x'', ''secret_key'' \<mapsto> ''y'', ''bucket'' \<mapsto> ''z'',
            ''provider'' \<mapsto> ''no such provider'', ''region'' \<mapsto> []]"]
  by simp

subsection \<open>What the messages say\<close>














section \<open>Properties of profile resolution\<close>

subsection \<open>The three layers, key by key\<close>

text \<open>
  The environment loop sets a key exactly when its variable is non-empty, so that the
  first layer is the default of each key unless the environment has a non-empty value;
  the second and third layer are read off the source in the same way.
\<close>

lemma dict_update_truthy_items:
  "dict_update config (truthy_items d) k = (if truthy (d k) then d k else config k)"
  by (cases "d k") (simp_all add: dict_update_def truthy_items_def map_add_def)

lemma profile_from_env_step_apply:
  "profile_from_env_step environ profile (suffix, key) =
     (if truthy (environ (ENV_PREFIX @ suffix))
      then profile(key := environ (ENV_PREFIX @ suffix)) else profile)"
  by (cases "environ (ENV_PREFIX @ suffix)")
     (simp_all add: profile_from_env_step_def environ_get_def)

lemma env_loop_other:
  "k \<notin> snd ` set entries \<Longrightarrow>
   foldl (profile_from_env_step environ) profile entries k = profile k"
  by (induction entries arbitrary: profile) (auto simp add: profile_from_env_step_apply)

lemma env_loop_entry:
  "distinct (map snd entries) \<Longrightarrow> (suffix, key) \<in> set entries \<Longrightarrow>
   foldl (profile_from_env_step environ) profile entries key =
     (if truthy (environ (ENV_PREFIX @ suffix)) then environ (ENV_PREFIX @ suffix)
      else profile key)"
proof (induction entries arbitrary: profile)
  case Nil
  then show ?case by simp
next
  case (Cons e entries)
  show ?case
  proof (cases "e = (suffix, key)")
    case True
    then have "key \<notin> snd ` set entries" using Cons.prems(1) by force
    then show ?thesis using True
      by (simp add: env_loop_other profile_from_env_step_apply)
  next
    case False
    then have mem: "(suffix, key) \<in> set entries"
      using Cons.prems(2) by auto
    then have "key \<in> snd ` set entries" by force
    moreover have "snd e \<notin> snd ` set entries" using Cons.prems(1) by simp
    ultimately have ne: "snd e \<noteq> key" by blast
    have "distinct (map snd entries)" using Cons.prems(1) by simp
    from Cons.IH [OF this mem] ne show ?thesis
      by (cases e) (simp add: profile_from_env_step_apply)
  qed
qed

lemma profile_from_env_entry:
  "(suffix, key) \<in> set ENV_KEYS \<Longrightarrow>
   profile_from_env environ key =
     (if truthy (environ (ENV_PREFIX @ suffix)) then environ (ENV_PREFIX @ suffix) else None)"
  unfolding profile_from_env_def
  by (subst env_loop_entry [where suffix = suffix]) (simp_all add: ENV_KEYS_def)

lemma env_layer_apply:
  "env_layer environ k =
     (if truthy (profile_from_env environ k) then profile_from_env environ k
      else default_config k)"
  by (simp add: env_layer_def dict_update_truthy_items)

lemma env_layer_entry:
  "(suffix, key) \<in> set ENV_KEYS \<Longrightarrow>
   env_layer environ key =
     (if truthy (environ (ENV_PREFIX @ suffix)) then environ (ENV_PREFIX @ suffix)
      else default_config key)"
  by (simp add: env_layer_apply profile_from_env_entry)

lemma env_layer_keys:
  "env_layer environ ''provider'' =
     (if truthy (environ ''COMFY_S3_PROVIDER'') then environ ''COMFY_S3_PROVIDER''
      else Some ''AWS S3'')"
  "env_layer environ ''access_key'' =
     (if truthy (environ ''COMFY_S3_ACCESS_KEY'') then environ ''COMFY_S3_ACCESS_KEY''
      else Some [])"
  "env_layer environ ''secret_key'' =
     (if truthy (environ ''COMFY_S3_SECRET_KEY'') then environ ''COMFY_S3_SECRET_KEY''
      else Some [])"
  "env_layer environ ''region'' =
     (if truthy (environ ''COMFY_S3_REGION'') then environ ''COMFY_S3_REGION'' else Some [])"
  "env_layer environ ''bucket'' =
     (if truthy (environ ''COMFY_S3_BUCKET'') then environ ''COMFY_S3_BUCKET'' else Some [])"
  "env_layer environ ''endpoint_url'' =
     (if truthy (environ ''COMFY_S3_ENDPOINT_URL'') then environ ''COMFY_S3_ENDPOINT_URL''
      else Some [])"
  "env_layer environ ''account_id'' =
     (if truthy (environ ''COMFY_S3_ACCOUNT_ID'') then environ ''COMFY_S3_ACCOUNT_ID''
      else Some [])"
  "env_layer environ ''path_prefix'' =
     (if truthy (environ ''COMFY_S3_PATH_PREFIX'') then environ ''COMFY_S3_PATH_PREFIX''
      else Some [])"
  using env_layer_entry [of "''PROVIDER''" "''provider''" environ]
    env_layer_entry [of "''ACCESS_KEY''" "''access_key''" environ]
    env_layer_entry [of "''SECRET_KEY''" "''secret_key''" environ]
    env_layer_entry [of "''REGION''" "''region''" environ]
    env_layer_entry [of "''BUCKET''" "''bucket''" environ]
    env_layer_entry [of "''ENDPOINT_URL''" "''endpoint_url''" environ]
    env_layer_entry [of "''ACCOUNT_ID''" "''account_id''" environ]
    env_layer_entry [of "''PATH_PREFIX''" "''path_prefix''" environ]
  by (simp_all add: ENV_KEYS_def ENV_PREFIX_def default_config_def)

lemma env_layer_keeps_defaults: "default_config k \<noteq> None \<Longrightarrow> env_layer environ k \<noteq> None"
  by (cases "profile_from_env environ k") (simp_all add: env_layer_apply)

lemma override_layer_apply:
  "override_layer po bo ppo config k =
     (if k = ''path_prefix'' \<and> ppo \<noteq> [] then Some ppo
      else if k = ''bucket'' \<and> bo \<noteq> [] then Some bo
      else if k = ''provider'' \<and> po \<noteq> [] \<and> po \<noteq> ''(from profile)'' then Some po
      else config k)"
  by (simp add: override_layer_def Let_def)

lemma override_layer_neutral: "override_layer [] [] [] config = config"
  by (simp add: override_layer_def)

lemma profile_layer_apply:
  "fst (profile_layer profiles profile_name config) k =
     (case profiles profile_name of
        None \<Rightarrow> config k
      | Some named \<Rightarrow>
          if profile_name \<noteq> [] \<and> profile_name \<noteq> ''(env vars)'' \<and> truthy (named k)
          then named k else config k)"
proof (cases "profiles profile_name")
  case None
  then show ?thesis by (simp add: profile_layer_def)
next
  case (Some named)
  show ?thesis
  proof (cases "named = Map.empty")
    case True
    then show ?thesis using Some by (simp add: profile_layer_def)
  next
    case False
    then show ?thesis using Some by (simp add: profile_layer_def dict_update_truthy_items)
  qed
qed

lemma profile_layer_events:
  "snd (profile_layer profiles profile_name config) =
     (if profile_name = [] \<or> profile_name = ''(env vars)'' then []
      else if profiles profile_name = None \<or> profiles profile_name = Some Map.empty
      then [LoadProfiles, LogWarning (not_found_message profile_name)]
      else [LoadProfiles])"
  by (cases "profiles profile_name") (auto simp add: profile_layer_def)

lemma resolve_profile_config:
  "fst (resolve_profile environ profiles profile_name po bo ppo) =
     override_layer po bo ppo (after_profile_layer environ profiles profile_name)"
  by (simp add: resolve_profile_def after_profile_layer_def Let_def)

lemma resolve_profile_events:
  "snd (resolve_profile environ profiles profile_name po bo ppo) =
     snd (profile_layer profiles profile_name (env_layer environ))"
  by (simp add: resolve_profile_def Let_def)

lemma after_profile_layer_apply:
  "after_profile_layer environ profiles profile_name k =
     (case profiles profile_name of
        None \<Rightarrow> env_layer environ k
      | Some named \<Rightarrow>
          if profile_name \<noteq> [] \<and> profile_name \<noteq> ''(env vars)'' \<and> truthy (named k)
          then named k else env_layer environ k)"
  by (simp add: after_profile_layer_def profile_layer_apply)

lemma truthy_not_None: "truthy x \<Longrightarrow> \<exists>v. x = Some v"
  by (cases x) simp_all

lemma after_profile_layer_keeps:
  "env_layer environ k \<noteq> None \<Longrightarrow>
   after_profile_layer environ profiles profile_name k \<noteq> None"
  by (cases "profiles profile_name")
     (auto simp add: after_profile_layer_apply dest: truthy_not_None)

lemma override_layer_keeps: "config k \<noteq> None \<Longrightarrow> override_layer po bo ppo config k \<noteq> None"
  by (simp add: override_layer_apply)

lemma resolve_profile_has_defaults:
  "default_config k \<noteq> None \<Longrightarrow>
   fst (resolve_profile environ profiles profile_name po bo ppo) k \<noteq> None"
  unfolding resolve_profile_config
  by (intro override_layer_keeps after_profile_layer_keeps env_layer_keeps_defaults)

lemma truthy_env_provider: "truthy (env_layer environ ''provider'')"
  by (simp add: env_layer_keys)

lemma truthy_after_profile_provider:
  "truthy (after_profile_layer environ profiles profile_name ''provider'')"
  by (cases "profiles profile_name")
     (simp_all add: after_profile_layer_apply truthy_env_provider)

subsection \<open>The named profile\<close>

text \<open>
  Claim C1, with the guard of the source. The profile layer runs only for a profile
  name that is neither empty nor \<open>(env vars)\<close>. For such a name that is a key of the
  stored profiles, every field that is non-empty in the stored profile replaces the value
  of the environment layer, and every field that is missing or empty in the stored
  profile keeps the value of the environment layer. That is the configuration handed to
  the per-node overrides, and it is the result when no override is given.
\<close>

theorem named_profile_overlays_env:
  assumes "profiles profile_name = Some named"
    and "profile_name \<noteq> []" and "profile_name \<noteq> ''(env vars)''"
  shows "after_profile_layer environ profiles profile_name =
           (\<lambda>k. if truthy (named k) then named k else env_layer environ k)
         \<and> fst (resolve_profile environ profiles profile_name po bo ppo) =
             override_layer po bo ppo
               (\<lambda>k. if truthy (named k) then named k else env_layer environ k)
         \<and> fst (resolve_profile environ profiles profile_name [] [] []) =
             (\<lambda>k. if truthy (named k) then named k else env_layer environ k)"
proof -
  have "after_profile_layer environ profiles profile_name =
          (\<lambda>k. if truthy (named k) then named k else env_layer environ k)"
    using assms by (intro ext) (simp add: after_profile_layer_apply)
  then show ?thesis
    by (simp add: resolve_profile_config override_layer_neutral)
qed

text \<open>
  The example of the specification: the profile sets \<open>bucket\<close> and \<open>region\<close>, its empty
  \<open>secret_key\<close> and its missing \<open>access_key\<close> leave the environment's values.
\<close>

theorem named_profile_overlays_env_witness:
  "fst (resolve_profile
          [''COMFY_S3_ACCESS_KEY'' \<mapsto> ''envkey'', ''COMFY_S3_BUCKET'' \<mapsto> ''envbucket'']
          [''production'' \<mapsto>
             [''bucket'' \<mapsto> ''profilebucket'', ''region'' \<mapsto> ''eu-central-003'',
              ''secret_key'' \<mapsto> []]]
          ''production'' [] [] []) ''bucket'' = Some ''profilebucket''
   \<and> fst (resolve_profile
          [''COMFY_S3_ACCESS_KEY'' \<mapsto> ''envkey'', ''COMFY_S3_BUCKET'' \<mapsto> ''envbucket'']
          [''production'' \<mapsto>
             [''bucket'' \<mapsto> ''profilebucket'', ''region'' \<mapsto> ''eu-central-003'',
              ''secret_key'' \<mapsto> []]]
          ''production'' [] [] []) ''region'' = Some ''eu-central-003''
   \<and> fst (resolve_profile
          [''COMFY_S3_ACCESS_KEY'' \<mapsto> ''envkey'', ''COMFY_S3_BUCKET'' \<mapsto> ''envbucket'']
          [''production'' \<mapsto>
             [''bucket'' \<mapsto> ''profilebucket'', ''region'' \<mapsto> ''eu-central-003'',
              ''secret_key'' \<mapsto> []]]
          ''production'' [] [] []) ''access_key'' = Some ''envkey''"
proof -
  let ?env = "[''COMFY_S3_ACCESS_KEY'' \<mapsto> ''envkey'', ''COMFY_S3_BUCKET'' \<mapsto> ''envbucket'']"
  let ?named = "[''bucket'' \<mapsto> ''profilebucket'', ''region'' \<mapsto> ''eu-central-003'',
              ''secret_key'' \<mapsto> []]"
  let ?profiles = "[''production'' \<mapsto> ?named]"
  have h: "?profiles ''production'' = Some ?named" "''production'' \<noteq> []"
    "''production'' \<noteq> ''(env vars)''"
    by simp_all
  have r: "fst (resolve_profile ?env ?profiles ''production'' [] [] []) =
      (\<lambda>k. if truthy (?named k) then ?named k else env_layer ?env k)"
    using named_profile_overlays_env [of ?profiles "''production''" ?named ?env, OF h]
    by blast
  show ?thesis
    unfolding r by (simp add: env_layer_keys)
qed

text \<open>
  Claim C1 as stated, for every profile name that is a key of the store, fails at the
  name \<open>(env vars)\<close>: a profile stored under that name is never read, and its non-empty
  \<open>bucket\<close> does not replace the environment's.
\<close>

theorem sentinel_named_profile_is_skipped:
  "[''(env vars)'' \<mapsto> [''bucket'' \<mapsto> ''profilebucket'']] ''(env vars)'' =
      Some [''bucket'' \<mapsto> ''profilebucket'']
   \<and> fst (resolve_profile [''COMFY_S3_BUCKET'' \<mapsto> ''envbucket'']
            [''(env vars)'' \<mapsto> [''bucket'' \<mapsto> ''profilebucket'']]
            ''(env vars)'' [] [] []) ''bucket'' = Some ''envbucket''"
  by (simp add: resolve_profile_config override_layer_neutral after_profile_layer_apply
        env_layer_keys)

text \<open>
  For stored profiles of the documented shape and a profile name that is not one of their
  keys, the resolved configuration is the one of the call with \<open>(env vars)\<close> and the
  same overrides, that is, the overrides applied to the environment layer; the only effect
  is the warning (none when the name is empty or \<open>(env vars)\<close>, since the profiles are
  then not even loaded).
\<close>

lemma missing_profile_same_as_env_only:
  "profiles profile_name = None \<Longrightarrow>
   fst (resolve_profile environ profiles profile_name po bo ppo) =
     fst (resolve_profile environ profiles ''(env vars)'' po bo ppo)
   \<and> fst (resolve_profile environ profiles profile_name po bo ppo) =
       override_layer po bo ppo (env_layer environ)
   \<and> snd (resolve_profile environ profiles profile_name po bo ppo) =
       (if profile_name = [] \<or> profile_name = ''(env vars)'' then []
        else [LoadProfiles, LogWarning (not_found_message profile_name)])"
  by (simp add: resolve_profile_def profile_layer_def Let_def)

text \<open>The test \<open>test_missing_profile_warns\<close>, with a store that has another profile.\<close>

lemma missing_profile_example:
  "resolve_profile [''COMFY_S3_BUCKET'' \<mapsto> ''envbucket'']
      [''production'' \<mapsto> [''bucket'' \<mapsto> ''profilebucket'']] ''nonexistent'' [] [] [] =
     (fst (resolve_profile [''COMFY_S3_BUCKET'' \<mapsto> ''envbucket'']
        [''production'' \<mapsto> [''bucket'' \<mapsto> ''profilebucket'']] ''(env vars)'' [] [] []),
      [LoadProfiles,
       LogWarning (''Cloud storage profile '' @ [CHR 0x27] @ ''nonexistent'' @ [CHR 0x27] @
         '' not found'')])"
proof -
  have h: "[''production'' \<mapsto> [''bucket'' \<mapsto> ''profilebucket'']] ''nonexistent'' = None"
    by simp
  show ?thesis
    using missing_profile_same_as_env_only
      [of "[''production'' \<mapsto> [''bucket'' \<mapsto> ''profilebucket'']]" "''nonexistent''"
          "[''COMFY_S3_BUCKET'' \<mapsto> ''envbucket'']" "[]" "[]" "[]", OF h]
    by (simp add: prod_eq_iff not_found_message_def)
qed

text \<open>
  Claim C9. With the empty string as profile name the profile layer is skipped: the
  result and the effects are those of the call with \<open>(env vars)\<close>, no effect happens
  (the profiles are not loaded, nothing is logged), and the stored profiles do not
  matter.
\<close>

theorem empty_profile_name_skips_profile_layer:
  "resolve_profile environ profiles [] po bo ppo =
     resolve_profile environ profiles ''(env vars)'' po bo ppo
   \<and> snd (resolve_profile environ profiles [] po bo ppo) = []
   \<and> resolve_profile environ profiles [] po bo ppo =
       resolve_profile environ other_profiles [] po bo ppo"
  by (simp add: resolve_profile_def profile_layer_def Let_def)

subsection \<open>The per-node overrides\<close>

text \<open>
  Claim C5, with the sentinel clause as the code has it. The override layer sets
  \<open>provider\<close> only for an override that is non-empty and not \<open>(from profile)\<close>,
  \<open>bucket\<close> and \<open>path_prefix\<close> only for a non-empty override, and leaves every other
  key, in particular \<open>access_key\<close>, \<open>secret_key\<close>, \<open>region\<close>, \<open>endpoint_url\<close> and
  \<open>account_id\<close>, as it is after the profile layer, whatever the overrides are. The
  layer never introduces the sentinel: when the provider after the profile layer is not
  \<open>(from profile)\<close>, the resolved provider is not either.
\<close>

theorem overrides_change_three_fields_only:
  "fst (resolve_profile environ profiles profile_name po bo ppo) ''provider'' =
      (if po \<noteq> [] \<and> po \<noteq> ''(from profile)'' then Some po
       else after_profile_layer environ profiles profile_name ''provider'')
   \<and> fst (resolve_profile environ profiles profile_name po bo ppo) ''bucket'' =
      (if bo \<noteq> [] then Some bo
       else after_profile_layer environ profiles profile_name ''bucket'')
   \<and> fst (resolve_profile environ profiles profile_name po bo ppo) ''path_prefix'' =
      (if ppo \<noteq> [] then Some ppo
       else after_profile_layer environ profiles profile_name ''path_prefix'')
   \<and> (\<forall>k. k \<notin> {''provider'', ''bucket'', ''path_prefix''} \<longrightarrow>
          fst (resolve_profile environ profiles profile_name po bo ppo) k =
            after_profile_layer environ profiles profile_name k)
   \<and> fst (resolve_profile environ profiles profile_name po bo ppo) ''access_key'' =
        after_profile_layer environ profiles profile_name ''access_key''
   \<and> fst (resolve_profile environ profiles profile_name po bo ppo) ''secret_key'' =
        after_profile_layer environ profiles profile_name ''secret_key''
   \<and> fst (resolve_profile environ profiles profile_name po bo ppo) ''region'' =
        after_profile_layer environ profiles profile_name ''region''
   \<and> fst (resolve_profile environ profiles profile_name po bo ppo) ''endpoint_url'' =
        after_profile_layer environ profiles profile_name ''endpoint_url''
   \<and> fst (resolve_profile environ profiles profile_name po bo ppo) ''account_id'' =
        after_profile_layer environ profiles profile_name ''account_id''
   \<and> (after_profile_layer environ profiles profile_name ''provider'' \<noteq> Some ''(from profile)''
        \<longrightarrow> fst (resolve_profile environ profiles profile_name po bo ppo) ''provider''
              \<noteq> Some ''(from profile)'')"
  by (simp add: resolve_profile_config override_layer_apply)

text \<open>
  The test \<open>test_widget_overrides\<close> with the sentinel as provider override.
\<close>

theorem overrides_change_three_fields_only_witness:
  "fst (resolve_profile
          [''COMFY_S3_ACCESS_KEY'' \<mapsto> ''envkey'', ''COMFY_S3_REGION'' \<mapsto> ''us-west-004'']
          Map.empty ''(env vars)'' ''(from profile)'' ''mybucket'' ''outputs/'') ''provider''
      \<noteq> Some ''(from profile)''
   \<and> fst (resolve_profile
          [''COMFY_S3_ACCESS_KEY'' \<mapsto> ''envkey'', ''COMFY_S3_REGION'' \<mapsto> ''us-west-004'']
          Map.empty ''(env vars)'' ''(from profile)'' ''mybucket'' ''outputs/'') ''bucket''
      = Some ''mybucket''
   \<and> fst (resolve_profile
          [''COMFY_S3_ACCESS_KEY'' \<mapsto> ''envkey'', ''COMFY_S3_REGION'' \<mapsto> ''us-west-004'']
          Map.empty ''(env vars)'' ''(from profile)'' ''mybucket'' ''outputs/'') ''region''
      = Some ''us-west-004''
   \<and> fst (resolve_profile
          [''COMFY_S3_ACCESS_KEY'' \<mapsto> ''envkey'', ''COMFY_S3_REGION'' \<mapsto> ''us-west-004'']
          Map.empty ''(env vars)'' ''(from profile)'' ''mybucket'' ''outputs/'') ''access_key''
      = Some ''envkey''"
proof -
  let ?env = "[''COMFY_S3_ACCESS_KEY'' \<mapsto> ''envkey'', ''COMFY_S3_REGION'' \<mapsto> ''us-west-004'']"
  let ?r = "fst (resolve_profile ?env Map.empty ''(env vars)'' ''(from profile)''
      ''mybucket'' ''outputs/'')"
  let ?c = "after_profile_layer ?env Map.empty ''(env vars)''"
  have c: "?c ''provider'' = Some ''AWS S3''" "?c ''region'' = Some ''us-west-004''"
    "?c ''access_key'' = Some ''envkey''"
    by (simp_all add: after_profile_layer_apply env_layer_keys)
  have k: "''region'' \<notin> {''provider'', ''bucket'', ''path_prefix''}" by simp
  have s: "?c ''provider'' \<noteq> Some ''(from profile)''"
    by (simp add: c)
  note t = overrides_change_three_fields_only
    [of ?env Map.empty "''(env vars)''" "''(from profile)''" "''mybucket''" "''outputs/''"]
  have "?r ''region'' = ?c ''region''" using t k by blast
  then have region: "?r ''region'' = Some ''us-west-004''" by (simp only: c)
  have provider: "?r ''provider'' \<noteq> Some ''(from profile)''" using t s by blast
  have "?r ''access_key'' = ?c ''access_key''" using t by blast
  then have access_key: "?r ''access_key'' = Some ''envkey''" by (simp only: c)
  have "?r ''bucket'' = (if ''mybucket'' \<noteq> [] then Some ''mybucket'' else ?c ''bucket'')"
    using t by blast
  then have bucket: "?r ''bucket'' = Some ''mybucket''" by simp
  from provider bucket region access_key show ?thesis by (intro conjI)
qed

text \<open>
  Claim C5 says that the sentinel is never the resolved provider. It is, when the
  environment (or a stored profile) has it as its provider: the first two layers take
  any non-empty value.
\<close>

theorem sentinel_from_environment_is_resolved:
  "fst (resolve_profile [''COMFY_S3_PROVIDER'' \<mapsto> ''(from profile)''] Map.empty
          ''(env vars)'' ''(from profile)'' [] []) ''provider'' = Some ''(from profile)''"
  by (simp add: resolve_profile_config override_layer_apply after_profile_layer_apply
        env_layer_keys)

subsection \<open>The resolved configuration\<close>

text \<open>
  Claim C10, with the last clause as the code has it. Whatever the environment, the
  stored profiles, the profile name and the overrides, the resolved configuration has the
  eight keys, and its provider is a non-empty string. The provider starts as \<open>AWS S3\<close>;
  the environment layer replaces it by a non-empty \<open>COMFY_S3_PROVIDER\<close> only, the
  profile layer by a non-empty stored provider only, and the override layer by an
  override that is non-empty and not \<open>(from profile)\<close> only.
\<close>

theorem resolved_config_complete:
  "{''provider'', ''access_key'', ''secret_key'', ''region'', ''bucket'', ''endpoint_url'',
    ''account_id'', ''path_prefix''}
     \<subseteq> dom (fst (resolve_profile environ profiles profile_name po bo ppo))
   \<and> (\<exists>v. fst (resolve_profile environ profiles profile_name po bo ppo) ''provider'' = Some v
          \<and> v \<noteq> [])
   \<and> default_config ''provider'' = Some ''AWS S3''
   \<and> env_layer environ ''provider'' =
       (if truthy (environ ''COMFY_S3_PROVIDER'') then environ ''COMFY_S3_PROVIDER''
        else default_config ''provider'')
   \<and> (after_profile_layer environ profiles profile_name ''provider'' =
         env_layer environ ''provider''
       \<or> (\<exists>named. profiles profile_name = Some named \<and> truthy (named ''provider'')
            \<and> after_profile_layer environ profiles profile_name ''provider'' =
                named ''provider''))
   \<and> fst (resolve_profile environ profiles profile_name po bo ppo) ''provider'' =
       (if po \<noteq> [] \<and> po \<noteq> ''(from profile)'' then Some po
        else after_profile_layer environ profiles profile_name ''provider'')"
proof -
  let ?r = "fst (resolve_profile environ profiles profile_name po bo ppo)"
  have keys: "{''provider'', ''access_key'', ''secret_key'', ''region'', ''bucket'',
      ''endpoint_url'', ''account_id'', ''path_prefix''} \<subseteq> dom ?r"
  proof
    fix k
    assume "k \<in> {''provider'', ''access_key'', ''secret_key'', ''region'', ''bucket'',
      ''endpoint_url'', ''account_id'', ''path_prefix''}"
    then have "default_config k \<noteq> None"
      by (auto simp add: default_config_def)
    then have "?r k \<noteq> None" by (rule resolve_profile_has_defaults)
    then show "k \<in> dom ?r" by (simp add: dom_def)
  qed
  have provider: "?r ''provider'' =
       (if po \<noteq> [] \<and> po \<noteq> ''(from profile)'' then Some po
        else after_profile_layer environ profiles profile_name ''provider'')"
    by (simp add: resolve_profile_config override_layer_apply)
  have "truthy (?r ''provider'')"
    unfolding provider by (simp add: truthy_after_profile_provider)
  then have nonempty: "\<exists>v. ?r ''provider'' = Some v \<and> v \<noteq> []"
    by (cases "?r ''provider''") simp_all
  have dflt: "default_config ''provider'' = Some ''AWS S3''"
    by (simp add: default_config_def)
  have env: "env_layer environ ''provider'' =
       (if truthy (environ ''COMFY_S3_PROVIDER'') then environ ''COMFY_S3_PROVIDER''
        else default_config ''provider'')"
    by (simp add: env_layer_keys dflt)
  have prof: "after_profile_layer environ profiles profile_name ''provider'' =
         env_layer environ ''provider''
       \<or> (\<exists>named. profiles profile_name = Some named \<and> truthy (named ''provider'')
            \<and> after_profile_layer environ profiles profile_name ''provider'' =
                named ''provider'')"
    by (cases "profiles profile_name") (simp_all add: after_profile_layer_apply)
  from keys nonempty dflt env prof provider show ?thesis by (intro conjI)
qed

text \<open>
  Claim C10 says that every layer keeps the sentinel out. The environment and profile
  layers do not: a stored provider \<open>(from profile)\<close> replaces \<open>AWS S3\<close> and is
  resolved.
\<close>

theorem profile_layer_can_store_sentinel_provider:
  "env_layer Map.empty ''provider'' = Some ''AWS S3''
   \<and> after_profile_layer Map.empty
        [''production'' \<mapsto> [''provider'' \<mapsto> ''(from profile)'']] ''production'' ''provider''
      = Some ''(from profile)''
   \<and> fst (resolve_profile Map.empty
        [''production'' \<mapsto> [''provider'' \<mapsto> ''(from profile)'']] ''production'' [] [] [])
        ''provider''
      = Some ''(from profile)''"
  by (simp add: resolve_profile_config override_layer_apply after_profile_layer_apply
        env_layer_keys)

subsection \<open>The profile file as parsed JSON\<close>

text \<open>
  On a profile file of the documented shape, the function read line by line on the parsed
  JSON value returns what \<open>resolve_profile\<close> on the stored profiles returns, with the
  same effects: the typed model above is the source on well-shaped files.
\<close>

lemma string_values_empty: "(string_values d = Map.empty) = (d = Map.empty)"
proof
  assume e: "string_values d = Map.empty"
  show "d = Map.empty"
  proof
    fix k
    from e have "string_values d k = None" by simp
    then show "d k = None" by (simp add: string_values_def)
  qed
next
  assume "d = Map.empty"
  then show "string_values d = Map.empty" by (simp add: string_values_def)
qed

lemma json_truthy_items_string_values:
  "json_truthy_items (string_values d) = string_values (truthy_items d)"
proof
  fix k
  show "json_truthy_items (string_values d) k = string_values (truthy_items d) k"
    by (cases "d k") (simp_all add: json_truthy_items_def string_values_def truthy_items_def)
qed

lemma string_values_update:
  "string_values c ++ string_values d = string_values (dict_update c d)"
proof
  fix k
  show "(string_values c ++ string_values d) k = string_values (dict_update c d) k"
    by (cases "d k") (simp_all add: string_values_def dict_update_def map_add_def)
qed

lemma string_values_upd: "(string_values c)(k \<mapsto> JString v) = string_values (c(k \<mapsto> v))"
  by (rule ext) (simp add: string_values_def)

lemma json_override_layer_string_values:
  "json_override_layer po bo ppo (string_values c) = string_values (override_layer po bo ppo c)"
  by (simp add: json_override_layer_def override_layer_def Let_def string_values_upd)

lemma load_profiles_document:
  "load_profiles path (profiles_document profiles) =
     (Inr (JObject (\<lambda>name. map_option (\<lambda>d. JObject (string_values d)) (profiles name))), [])"
  by (simp add: load_profiles_def profiles_document_def)

lemma resolve_profile_from_file_document:
  "resolve_profile_from_file environ path (profiles_document profiles) profile_name po bo ppo =
     (Inr (string_values (fst (resolve_profile environ profiles profile_name po bo ppo))),
      snd (resolve_profile environ profiles profile_name po bo ppo))"
proof (cases "profile_name \<noteq> [] \<and> profile_name \<noteq> ''(env vars)''")
  case False
  then show ?thesis
    by (auto simp add: resolve_profile_from_file_def resolve_profile_def profile_layer_def
          Let_def json_override_layer_string_values)
next
  case True
  show ?thesis
  proof (cases "profiles profile_name")
    case None
    then show ?thesis using True
      by (simp add: resolve_profile_from_file_def resolve_profile_def profile_layer_def
            Let_def json_override_layer_string_values load_profiles_document)
  next
    case (Some named)
    show ?thesis
    proof (cases "named = Map.empty")
      case e: True
      then show ?thesis using True Some
        by (simp add: resolve_profile_from_file_def resolve_profile_def profile_layer_def
              Let_def json_override_layer_string_values load_profiles_document
              string_values_empty)
    next
      case ne: False
      then show ?thesis using True Some
        by (simp add: resolve_profile_from_file_def resolve_profile_def profile_layer_def
              Let_def json_override_layer_string_values load_profiles_document
              string_values_empty json_truthy_items_string_values string_values_update)
    qed
  qed
qed

text \<open>
  What \<open>_load_profiles\<close> does with each state of the file: a missing, unreadable or
  unparsable file counts as no profiles; bytes that are no text, and a document that is
  not an object, leave the function as an exception.
\<close>

lemma load_failures:
  "fst (load_profiles path Missing) = Inr (JObject Map.empty)"
  "fst (load_profiles path (OpenFails detail)) = Inr (JObject Map.empty)"
  "fst (load_profiles path (NotJson detail)) = Inr (JObject Map.empty)"
  "fst (load_profiles path NotText) = Inl UnicodeDecodeError"
  "fst (load_profiles path (Document (JObject Map.empty))) = Inr (JObject Map.empty)"
  "fst (load_profiles path (Document JNull)) = Inl (AttributeError ''get'')"
  by (simp_all add: load_profiles_def)

text \<open>
  So a missing profile name is harmless on a file of the documented shape, and any profile
  name is on a file that is missing, unreadable or not JSON.
\<close>

lemma missing_profile_on_documented_file:
  "profiles profile_name = None \<Longrightarrow>
   fst (resolve_profile_from_file environ path (profiles_document profiles) profile_name
          po bo ppo) =
     Inr (string_values (override_layer po bo ppo (env_layer environ)))"
proof -
  assume "profiles profile_name = None"
  then have "fst (resolve_profile environ profiles profile_name po bo ppo) =
      override_layer po bo ppo (env_layer environ)"
    using missing_profile_same_as_env_only [of profiles profile_name environ po bo ppo]
    by blast
  then show ?thesis
    by (simp only: resolve_profile_from_file_document fst_conv)
qed

lemma any_profile_on_unusable_file:
  "fst (resolve_profile_from_file environ path Missing profile_name po bo ppo) =
     Inr (string_values (override_layer po bo ppo (env_layer environ)))"
  "fst (resolve_profile_from_file environ path (OpenFails detail) profile_name po bo ppo) =
     Inr (string_values (override_layer po bo ppo (env_layer environ)))"
  "fst (resolve_profile_from_file environ path (NotJson detail) profile_name po bo ppo) =
     Inr (string_values (override_layer po bo ppo (env_layer environ)))"
  by (simp_all add: resolve_profile_from_file_def load_profiles_def Let_def
        json_override_layer_string_values)

text \<open>
  Claim C6 asks that resolving a profile name that is not a key of the store never
  raises and gives the configuration of the \<open>(env vars)\<close> call. The code does so when
  the file is missing, unreadable, not JSON, or of the documented shape, and the test
  \<open>test_missing_profile_warns\<close> says "should not raise, just warn". It does not when the
  file is valid JSON of another shape: with \<open>{"profiles": []}\<close>, or with a document that
  is a list, the name \<open>nonexistent\<close> is no key of anything, and the call ends in
  \<open>AttributeError\<close> at \<open>profiles.get\<close> (line 101) or \<open>data.get\<close> (line 50), which the
  \<open>except\<close> clause of \<open>_load_profiles\<close> does not catch, while the \<open>(env vars)\<close> call on
  the same file returns the environment's configuration.
\<close>

theorem missing_profile_raises_on_misshaped_store:
  "resolve_profile_from_file environ path (Document (JObject [''profiles'' \<mapsto> JArray []]))
      ''nonexistent'' po bo ppo = (Inl (AttributeError ''get''), [LoadProfiles])
   \<and> resolve_profile_from_file environ path (Document (JArray []))
      ''nonexistent'' po bo ppo = (Inl (AttributeError ''get''), [LoadProfiles])
   \<and> resolve_profile_from_file environ path (Document (JObject [''profiles'' \<mapsto> JArray []]))
      ''(env vars)'' po bo ppo =
        (Inr (string_values (override_layer po bo ppo (env_layer environ))), [])"
  by (simp add: resolve_profile_from_file_def load_profiles_def Let_def
        json_override_layer_string_values)

end
